theory Spec2Isabelle
  imports Main "HOL-Library.AList" "HOL-Library.Char_ord" "HOL-Library.List_Lexorder"
    "HOL-Library.Sublist"
begin

section \<open>IP masking (\<open>CCTVLogger._mask_ip\<close>)\<close>

text \<open>
  Python strings are modelled as HOL strings. \<open>str.split(sep)\<close> with an explicit
  one-character separator cuts at every occurrence of the separator and keeps empty
  segments, so the empty string gives one (empty) segment.
\<close>

fun split_on :: "char \<Rightarrow> string \<Rightarrow> string list" where
  "split_on c [] = [[]]"
| "split_on c (x # xs) =
     (if x = c then [] # split_on c xs
      else (let ps = split_on c xs in (x # hd ps) # tl ps))"

text \<open>
  \<^verbatim>\<open>
  def _mask_ip(self, ip: str) -> str:
      parts = ip.split(".")
      if len(parts) == 4:
          return f"{parts[0]}.{parts[1]}.{parts[2]}.xxx"
      return "unknown"
  \<close>
  The three index reads happen only under \<open>len(parts) == 4\<close>, so none can raise.
\<close>

definition mask_ip :: "string \<Rightarrow> string" where
  "mask_ip ip =
     (let parts = split_on CHR ''.'' ip
      in if length parts = 4
         then parts ! 0 @ ''.'' @ parts ! 1 @ ''.'' @ parts ! 2 @ ''.xxx''
         else ''unknown'')"

fun join_with :: "char \<Rightarrow> string list \<Rightarrow> string" where
  "join_with c [] = []"
| "join_with c [p] = p"
| "join_with c (p # q # ps) = p @ c # join_with c (q # ps)"


section \<open>Printing integers\<close>

text \<open>
  Python's \<open>str\<close> of an \<open>int\<close> is its decimal numeral, with a leading minus sign
  for a negative value.
\<close>

definition digit_char :: "int \<Rightarrow> char" where
  "digit_char d =
     (if d = 0 then CHR ''0'' else if d = 1 then CHR ''1'' else if d = 2 then CHR ''2''
      else if d = 3 then CHR ''3'' else if d = 4 then CHR ''4'' else if d = 5 then CHR ''5''
      else if d = 6 then CHR ''6'' else if d = 7 then CHR ''7'' else if d = 8 then CHR ''8''
      else CHR ''9'')"

function show_nat :: "int \<Rightarrow> string" where
  "show_nat n =
     (if n < 10 then [digit_char n] else show_nat (n div 10) @ [digit_char (n mod 10)])"
  by pat_completeness auto
termination
  by (relation "measure nat") auto

declare show_nat.simps [simp del]

definition show_int :: "int \<Rightarrow> string" where
  "show_int i = (if i < 0 then CHR ''-'' # show_nat (- i) else show_nat i)"

text \<open>\<open>'%0*d'\<close>: a non-negative number padded with zeros on the left to a width.\<close>

definition zero_pad :: "nat \<Rightarrow> int \<Rightarrow> string" where
  "zero_pad w n = (let s = show_nat n in replicate (w - length s) CHR ''0'' @ s)"

section \<open>Python floats\<close>

text \<open>
  A Python \<open>float\<close> is an IEEE 754 binary64 value. A finite one is kept as its sign, an
  integer mantissa \<open>m\<close> and a binary exponent \<open>e\<close>, standing for \<open>m * 2^e\<close>; the
  canonical form has \<open>m\<close> odd, or \<open>m = 0\<close> and \<open>e = 0\<close>. All arithmetic below is
  exact arithmetic on fractions of integers.
\<close>

datatype pyfloat = Fin bool int int | Inf bool | NaN

function nbits :: "int \<Rightarrow> int" where
  "nbits n = (if n \<le> 0 then 0 else 1 + nbits (n div 2))"
  by pat_completeness auto
termination
  by (relation "measure nat") auto

declare nbits.simps [simp del]

function ndigits :: "int \<Rightarrow> int" where
  "ndigits n = (if n < 10 then 1 else 1 + ndigits (n div 10))"
  by pat_completeness auto
termination
  by (relation "measure nat") auto

declare ndigits.simps [simp del]

function norm_me :: "int \<Rightarrow> int \<Rightarrow> int \<times> int" where
  "norm_me m e =
     (if m \<le> 0 then (0, 0) else if even m then norm_me (m div 2) (e + 1) else (m, e))"
  by pat_completeness auto
termination
  by (relation "measure (\<lambda>(m, e). nat m)") auto

declare norm_me.simps [simp del]

text \<open>The integer nearest to \<open>n / d\<close>, a tie going to the even one.\<close>

definition round_half_even :: "int \<Rightarrow> int \<Rightarrow> int" where
  "round_half_even n d =
     (let q = n div d; r = n mod d
      in if 2 * r < d then q else if d < 2 * r then q + 1 else if even q then q else q + 1)"

text \<open>The fraction \<open>f\<close> times \<open>base ^ j\<close>, for an exponent of either sign.\<close>

definition scale :: "int \<Rightarrow> int \<times> int \<Rightarrow> int \<Rightarrow> int \<times> int" where
  "scale base f j =
     (if 0 \<le> j then (fst f * base ^ nat j, snd f) else (fst f, snd f * base ^ nat (- j)))"

definition frac_le :: "int \<times> int \<Rightarrow> int \<times> int \<Rightarrow> bool" where
  "frac_le f g = (fst f * snd g \<le> fst g * snd f)"

text \<open>
  The floor of the logarithm of a positive fraction; \<open>len\<close> counts the digits of an
  integer in the base.
\<close>

definition floor_log :: "int \<Rightarrow> (int \<Rightarrow> int) \<Rightarrow> int \<times> int \<Rightarrow> int" where
  "floor_log base len f =
     (let c = len (fst f) - len (snd f)
      in if frac_le (scale base (1, 1) c) f then c else c - 1)"

text \<open>
  The binary64 value nearest to a non-negative fraction (round to nearest, ties to even;
  53 bits of mantissa, least exponent \<open>-1074\<close>); \<open>None\<close> when the rounded value is
  \<open>2^1024\<close> or more. This is what reading a decimal numeral gives.
\<close>

definition nearest_double :: "int \<times> int \<Rightarrow> (int \<times> int) option" where
  "nearest_double f =
     (if fst f = 0 then Some (0, 0)
      else let E = floor_log 2 nbits f;
               p = max (E - 52) (- 1074);
               g = scale 2 f (- p);
               m = round_half_even (fst g) (snd g)
           in if 1024 < nbits m + p then None else Some (norm_me m p))"


text \<open>
  The shortest decimal that reads back as the float \<open>x\<close> (whose value is the fraction
  \<open>f\<close>, with \<open>10^k \<le> f < 10^(k+1)\<close>): with \<open>n\<close> significant digits, the truncation
  \<open>L\<close> and its successor are the two candidates; when both read back as \<open>x\<close> the
  nearer one is taken. Seventeen digits always suffice. The result \<open>(D, j)\<close> stands for
  \<open>D * 10^j\<close>.
\<close>

function shortest_digits :: "int \<times> int \<Rightarrow> (int \<times> int) \<Rightarrow> int \<Rightarrow> nat \<Rightarrow> int \<times> int" where
  "shortest_digits f x k n =
     (let j = k - int n + 1;
          g = scale 10 f (- j);
          L = fst g div snd g;
          r = fst g mod snd g;
          lowok = (nearest_double (scale 10 (L, 1) j) = Some x);
          highok = (nearest_double (scale 10 (L + 1, 1) j) = Some x)
      in if 17 \<le> n then (round_half_even (fst g) (snd g), j)
         else if lowok then
           (if r = 0 then (L, j)
            else if highok \<and> (snd g < 2 * r \<or> (snd g = 2 * r \<and> odd L)) then (L + 1, j)
            else (L, j))
         else if highok then (L + 1, j)
         else shortest_digits f x k (Suc n))"
  by pat_completeness auto
termination
  by (relation "measure (\<lambda>(f, x, k, n). 17 - n)") auto

declare shortest_digits.simps [simp del]

definition strip_zeros :: "string \<Rightarrow> string" where
  "strip_zeros s = rev (dropWhile (\<lambda>c. c = CHR ''0'') (rev s))"

text \<open>The exponent of a float's \<open>repr\<close>: a sign and at least two digits.\<close>

definition exp_text :: "int \<Rightarrow> string" where
  "exp_text x =
     (let a = show_nat \<bar>x\<bar>
      in (if x < 0 then ''-'' else ''+'') @ (if length a < 2 then CHR ''0'' # a else a))"

text \<open>
  \<open>repr\<close> lays the digits \<open>ds\<close> out with the decimal point after \<open>decpt\<close> digits, and
  switches to exponent notation when \<open>decpt \<le> -4\<close> or \<open>decpt > 16\<close>.
\<close>

definition format_repr :: "string \<Rightarrow> int \<Rightarrow> string" where
  "format_repr ds decpt =
     (if decpt \<le> - 4 \<or> 16 < decpt
      then take 1 ds @ (if 1 < length ds then CHR ''.'' # drop 1 ds else [])
             @ ''e'' @ exp_text (decpt - 1)
      else if decpt \<le> 0 then ''0.'' @ replicate (nat (- decpt)) CHR ''0'' @ ds
      else if int (length ds) \<le> decpt
        then ds @ replicate (nat decpt - length ds) CHR ''0'' @ ''.0''
      else take (nat decpt) ds @ CHR ''.'' # drop (nat decpt) ds)"

text \<open>The text of the decimal \<open>D * 10^j\<close>.\<close>

definition digits_repr :: "int \<times> int \<Rightarrow> string" where
  "digits_repr Dj =
     format_repr (strip_zeros (show_nat (fst Dj))) (snd Dj + int (length (show_nat (fst Dj))))"

definition finite_repr :: "int \<Rightarrow> int \<Rightarrow> string" where
  "finite_repr m e =
     (if m = 0 then ''0.0''
      else digits_repr
             (shortest_digits (scale 2 (m, 1) e) (norm_me m e)
                (floor_log 10 ndigits (scale 2 (m, 1) e)) 1))"

definition float_repr :: "pyfloat \<Rightarrow> string" where
  "float_repr x =
     (case x of
        NaN \<Rightarrow> ''nan''
      | Inf neg \<Rightarrow> (if neg then ''-inf'' else ''inf'')
      | Fin neg m e \<Rightarrow> (if neg then ''-'' else []) @ finite_repr m e)"

text \<open>
  \<open>round(x, 2)\<close> on a finite float: the value is rounded, exactly and ties to even, to
  two decimal places, and that decimal is read back as a float.
\<close>

definition round_ndigits2 :: "int \<Rightarrow> int \<Rightarrow> (int \<times> int) option" where
  "round_ndigits2 m e =
     (let f = scale 2 (100 * m, 1) e
      in nearest_double (round_half_even (fst f) (snd f), 100))"

section \<open>Python values\<close>

text \<open>
  The values a field of a log record can hold (the source types them \<open>Any\<close>): the JSON
  kinds, and \<open>PObj\<close> for an object of any other class (a set, a socket, ...), kept as the
  text its \<open>str\<close> gives. A dictionary keeps its keys in insertion order, as Python's
  does; its keys are strings. Nested containers are values here: the source never
  mutates one.
\<close>

datatype pyval =
    PNone
  | PBool bool
  | PInt int
  | PFloat pyfloat
  | PStr string
  | PList "pyval list"
  | PDict "(string \<times> pyval) list"
  | PObj string

type_synonym pydict = "(string \<times> pyval) list"

datatype error = AttributeError | TypeError | ValueError | OverflowError

fun join_str :: "string \<Rightarrow> string list \<Rightarrow> string" where
  "join_str sep [] = []"
| "join_str sep [p] = p"
| "join_str sep (p # q # ps) = p @ sep @ join_str sep (q # ps)"

subsection \<open>Dictionaries\<close>

text \<open>
  \<open>d[k] = v\<close> replaces the value of a key that is present, in place, and appends a new
  key at the end; \<open>del d[k]\<close> removes the key; \<open>d.update(e)\<close> and a dictionary display
  \<open>{..., **e}\<close> assign the items of \<open>e\<close> in order.
\<close>

definition dict_set :: "string \<Rightarrow> pyval \<Rightarrow> pydict \<Rightarrow> pydict" where
  "dict_set k v d = AList.update k v d"

definition dict_del :: "string \<Rightarrow> pydict \<Rightarrow> pydict" where
  "dict_del k d = AList.delete k d"

definition dict_get :: "pydict \<Rightarrow> string \<Rightarrow> pyval option" where
  "dict_get d k = map_of d k"

definition dict_keys :: "pydict \<Rightarrow> string set" where
  "dict_keys d = fst ` set d"

definition dict_update :: "pydict \<Rightarrow> pydict \<Rightarrow> pydict" where
  "dict_update d e = fold (\<lambda>kv. dict_set (fst kv) (snd kv)) e d"

definition dict_display :: "pydict \<Rightarrow> pydict" where
  "dict_display items = dict_update [] items"

subsection \<open>\<open>repr\<close> and \<open>str\<close>\<close>

definition hex_char :: "nat \<Rightarrow> char" where
  "hex_char d = ''0123456789abcdef'' ! (d mod 16)"

definition hex2 :: "char \<Rightarrow> string" where
  "hex2 c = (let n = (of_char c :: nat) in [hex_char (n div 16), hex_char (n mod 16)])"

text \<open>
  \<open>repr\<close> of a string: in single quotes, unless it holds a single quote and no double
  quote; the quote and the backslash are escaped, tab, newline and carriage return are
  written \<open>\t\<close>, \<open>\n\<close>, \<open>\r\<close>, and any other non-printable character as \<open>\xNN\<close>.
\<close>

definition repr_char :: "char \<Rightarrow> char \<Rightarrow> string" where
  "repr_char q c =
     (let n = (of_char c :: nat)
      in if c = q \<or> c = CHR 0x5C then [CHR 0x5C, c]
         else if c = CHR 0x09 then [CHR 0x5C, CHR ''t'']
         else if c = CHR 0x0A then [CHR 0x5C, CHR ''n'']
         else if c = CHR 0x0D then [CHR 0x5C, CHR ''r'']
         else if n < 0x20 \<or> n = 0x7F \<or> (0x80 \<le> n \<and> n \<le> 0xA0) \<or> n = 0xAD
           then CHR 0x5C # CHR ''x'' # hex2 c
         else [c])"

definition repr_str :: "string \<Rightarrow> string" where
  "repr_str s =
     (let q = (if CHR 0x27 \<in> set s \<and> CHR 0x22 \<notin> set s then CHR 0x22 else CHR 0x27)
      in q # concat (map (repr_char q) s) @ [q])"

fun py_repr :: "pyval \<Rightarrow> string" where
  "py_repr PNone = ''None''"
| "py_repr (PBool b) = (if b then ''True'' else ''False'')"
| "py_repr (PInt i) = show_int i"
| "py_repr (PFloat x) = float_repr x"
| "py_repr (PStr s) = repr_str s"
| "py_repr (PList xs) = ''['' @ join_str '', '' (map py_repr xs) @ '']''"
| "py_repr (PDict kvs) =
     ''{'' @ join_str '', '' (map (\<lambda>kv. repr_str (fst kv) @ '': '' @ py_repr (snd kv)) kvs)
       @ ''}''"
| "py_repr (PObj s) = s"

text \<open>What an f-string substitutes for \<open>{v}\<close>.\<close>

definition py_str :: "pyval \<Rightarrow> string" where
  "py_str v = (case v of PStr s \<Rightarrow> s | _ \<Rightarrow> py_repr v)"

subsection \<open>\<open>json.dumps(v, ensure_ascii=False)\<close>\<close>

text \<open>
  With \<open>ensure_ascii=False\<close> the encoder escapes the double quote, the backslash and
  the control characters below \<open>0x20\<close> only.
\<close>

definition esc_char :: "char \<Rightarrow> string" where
  "esc_char c =
     (if c = CHR 0x5C then [CHR 0x5C, CHR 0x5C]
      else if c = CHR 0x22 then [CHR 0x5C, CHR 0x22]
      else if c = CHR 0x08 then [CHR 0x5C, CHR ''b'']
      else if c = CHR 0x0C then [CHR 0x5C, CHR ''f'']
      else if c = CHR 0x0A then [CHR 0x5C, CHR ''n'']
      else if c = CHR 0x0D then [CHR 0x5C, CHR ''r'']
      else if c = CHR 0x09 then [CHR 0x5C, CHR ''t'']
      else if (of_char c :: nat) < 0x20 then [CHR 0x5C, CHR ''u'', CHR ''0'', CHR ''0''] @ hex2 c
      else [c])"

definition encode_basestring :: "string \<Rightarrow> string" where
  "encode_basestring s = CHR 0x22 # concat (map esc_char s) @ [CHR 0x22]"

definition json_float :: "pyfloat \<Rightarrow> string" where
  "json_float x =
     (case x of
        NaN \<Rightarrow> ''NaN''
      | Inf neg \<Rightarrow> (if neg then ''-Infinity'' else ''Infinity'')
      | Fin neg m e \<Rightarrow> float_repr x)"

text \<open>The encoder raises \<open>TypeError\<close> on an object that is not of a JSON kind.\<close>

fun jsonable :: "pyval \<Rightarrow> bool" where
  "jsonable (PObj s) = False"
| "jsonable (PList xs) = list_all jsonable xs"
| "jsonable (PDict kvs) = list_all (\<lambda>kv. jsonable (snd kv)) kvs"
| "jsonable v = True"

fun json_text :: "pyval \<Rightarrow> string" where
  "json_text PNone = ''null''"
| "json_text (PBool b) = (if b then ''true'' else ''false'')"
| "json_text (PInt i) = show_int i"
| "json_text (PFloat x) = json_float x"
| "json_text (PStr s) = encode_basestring s"
| "json_text (PList xs) = ''['' @ join_str '', '' (map json_text xs) @ '']''"
| "json_text (PDict kvs) =
     ''{'' @ join_str '', ''
        (map (\<lambda>kv. encode_basestring (fst kv) @ '': '' @ json_text (snd kv)) kvs) @ ''}''"
| "json_text (PObj s) = []"

definition json_dumps :: "pyval \<Rightarrow> error + string" where
  "json_dumps v = (if jsonable v then Inr (json_text v) else Inl TypeError)"

section \<open>The clock\<close>

text \<open>
  \<open>datetime.utcnow()\<close> reads the system clock; a reading is the naive calendar time it
  returns. \<open>isoformat()\<close> writes \<open>YYYY-MM-DDTHH:MM:SS\<close>, followed by \<open>.ffffff\<close> when
  the microsecond is not zero.
\<close>

record datetime =
  year :: int
  month :: int
  day :: int
  hour :: int
  minute :: int
  second :: int
  microsecond :: int

definition isoformat :: "datetime \<Rightarrow> string" where
  "isoformat t =
     zero_pad 4 (year t) @ ''-'' @ zero_pad 2 (month t) @ ''-'' @ zero_pad 2 (day t) @ ''T''
       @ zero_pad 2 (hour t) @ '':'' @ zero_pad 2 (minute t) @ '':'' @ zero_pad 2 (second t)
       @ (if microsecond t = 0 then [] else ''.'' @ zero_pad 6 (microsecond t))"

section \<open>The record formatter (\<open>JsonFormatter.format\<close>)\<close>

text \<open>
  \<^verbatim>\<open>
  def format(self, record):
      log_entry = {
          "timestamp": datetime.utcnow().isoformat() + "Z",
          "level": record.levelname,
          "message": record.getMessage(),
      }
      if hasattr(record, "extra_data"):
          log_entry.update(record.extra_data)
      return json.dumps(log_entry, ensure_ascii=False)
  \<close>
  A log record carries its level name, its message and, when the attribute was set, its
  \<open>extra_data\<close>.
\<close>

record log_record =
  levelname :: string
  message :: string
  extra_data :: "pydict option"

definition log_entry :: "datetime \<Rightarrow> log_record \<Rightarrow> pydict" where
  "log_entry utcnow r =
     (let entry = dict_display
            [(''timestamp'', PStr (isoformat utcnow @ ''Z'')),
             (''level'', PStr (levelname r)),
             (''message'', PStr (message r))]
      in case extra_data r of None \<Rightarrow> entry | Some d \<Rightarrow> dict_update entry d)"

definition format :: "datetime \<Rightarrow> log_record \<Rightarrow> error + string" where
  "format utcnow r = json_dumps (PDict (log_entry utcnow r))"

section \<open>The logging runtime\<close>

text \<open>
  The source builds on the standard library's \<open>logging\<close> package. The part of it the
  source drives is modelled as state: the registry of loggers (one logger object per
  name), the handler objects ever constructed, and the files. A handler is named by its
  index in the store, a logger by its registry key. A file is its modification time and
  its lines. \<open>written\<close> is the log of stream writes, oldest first: the path and the line
  of every \<open>stream.write(msg + "\n")\<close>. \<open>heap\<close> holds the dictionary objects that are
  passed by reference, \<open>next_free\<close> being the first address not yet allocated.

  Not modelled: directories (\<open>os.makedirs\<close>), failures of the operating system,
  loggers above the named one in the hierarchy (the root logger is taken to carry no
  handler), and threads.
\<close>

record logfile =
  f_mtime :: int
  f_lines :: "string list"

record handler =
  baseFilename :: string
  rolloverAt :: int
  interval :: int
  backupCount :: nat
  stream_open :: bool

record logger =
  level :: int
  handlers :: "nat list"

record world =
  heap :: "nat \<Rightarrow> pydict"
  next_free :: nat
  loggers :: "(string \<times> logger) list"
  handler_store :: "handler list"
  fs :: "(string \<times> logfile) list"
  written :: "(string \<times> string) list"

text \<open>
  What a call reads from its environment: \<open>int(time.time())\<close>, \<open>datetime.utcnow()\<close>,
  and the local calendar date \<open>time.strftime("%Y-%m-%d", ...)\<close> that names a rotated file,
  as a function of the start of the interval and of the current time (the library shifts
  the former by an hour when daylight saving differs between the two).
\<close>

record env =
  time_now :: int
  utcnow :: datetime
  rollover_date :: "int \<Rightarrow> int \<Rightarrow> string"

subsection \<open>Files\<close>

definition fs_exists :: "(string \<times> logfile) list \<Rightarrow> string \<Rightarrow> bool" where
  "fs_exists files p = (map_of files p \<noteq> None)"

text \<open>Opening a file for appending creates it, empty, when it does not exist.\<close>

definition fs_open_append :: "string \<Rightarrow> int \<Rightarrow> (string \<times> logfile) list \<Rightarrow> (string \<times> logfile) list" where
  "fs_open_append p t files =
     (if fs_exists files p then files
      else AList.update p \<lparr>f_mtime = t, f_lines = []\<rparr> files)"

definition fs_write :: "string \<Rightarrow> string \<Rightarrow> int \<Rightarrow> (string \<times> logfile) list \<Rightarrow> (string \<times> logfile) list" where
  "fs_write p line t files =
     (case map_of files p of
        None \<Rightarrow> AList.update p \<lparr>f_mtime = t, f_lines = [line]\<rparr> files
      | Some f \<Rightarrow> AList.update p \<lparr>f_mtime = t, f_lines = f_lines f @ [line]\<rparr> files)"

definition fs_rename :: "string \<Rightarrow> string \<Rightarrow> (string \<times> logfile) list \<Rightarrow> (string \<times> logfile) list" where
  "fs_rename src dst files =
     (case map_of files src of
        None \<Rightarrow> files
      | Some f \<Rightarrow> AList.update dst f (AList.delete src files))"

definition fs_remove :: "string \<Rightarrow> (string \<times> logfile) list \<Rightarrow> (string \<times> logfile) list" where
  "fs_remove p files = AList.delete p files"

text \<open>\<open>os.path.join(a, b)\<close> on POSIX.\<close>

definition path_join :: "string \<Rightarrow> string \<Rightarrow> string" where
  "path_join a b =
     (if b \<noteq> [] \<and> hd b = CHR ''/'' then b
      else if a = [] \<or> last a = CHR ''/'' then a @ b
      else a @ ''/'' @ b)"

subsection \<open>\<open>TimedRotatingFileHandler\<close>\<close>

text \<open>
  The source constructs the handler with \<open>when="D"\<close>, \<open>interval=1\<close>,
  \<open>backupCount=14\<close>. For \<open>when="D"\<close> the library sets the interval unit to
  \<open>60 * 60 * 24\<close> seconds, multiplies it by \<open>interval\<close>, names rotated files with the
  suffix \<open>%Y-%m-%d\<close>, and computes the next rollover as the given time plus the
  interval. The constructor opens the stream at once (which creates the file), then takes
  the file's modification time as the start of the first interval.
\<close>

definition day_seconds :: int where
  "day_seconds = 60 * 60 * 24"

definition computeRollover :: "handler \<Rightarrow> int \<Rightarrow> int" where
  "computeRollover h currentTime = currentTime + interval h"

definition TimedRotatingFileHandler :: "string \<Rightarrow> int \<Rightarrow> nat \<Rightarrow> env \<Rightarrow> world \<Rightarrow> nat \<times> world" where
  "TimedRotatingFileHandler filename interval_units backup_count ev w =
     (let files = fs_open_append filename (time_now ev) (fs w);
          t = (case map_of files filename of Some f \<Rightarrow> f_mtime f | None \<Rightarrow> time_now ev);
          h0 = \<lparr>baseFilename = filename, rolloverAt = 0,
                interval = day_seconds * interval_units,
                backupCount = backup_count, stream_open = True\<rparr>;
          h = h0\<lparr>rolloverAt := computeRollover h0 t\<rparr>
      in (length (handler_store w),
          w\<lparr>handler_store := handler_store w @ [h], fs := files\<rparr>))"

text \<open>
  \<open>extMatch\<close> for \<open>when="D"\<close> is \<open>\d{4}-\d{2}-\d{2}\<close>, matched against the whole
  suffix with ASCII digits.
\<close>

definition is_digit :: "char \<Rightarrow> bool" where
  "is_digit c = (CHR ''0'' \<le> c \<and> c \<le> CHR ''9'')"

definition is_date_suffix :: "string \<Rightarrow> bool" where
  "is_date_suffix s =
     (length s = 10 \<and> list_all is_digit (take 4 s) \<and> s ! 4 = CHR ''-''
      \<and> list_all is_digit (take 2 (drop 5 s)) \<and> s ! 7 = CHR ''-''
      \<and> list_all is_digit (drop 8 s))"

text \<open>
  The rotated files of a handler: the files named by its base file name, a dot and a
  date suffix.
\<close>

definition is_rotated :: "string \<Rightarrow> string \<Rightarrow> bool" where
  "is_rotated base p =
     (take (length base + 1) p = base @ ''.'' \<and> is_date_suffix (drop (length base + 1) p))"

definition rotated_files :: "string \<Rightarrow> (string \<times> logfile) list \<Rightarrow> string list" where
  "rotated_files base files = filter (is_rotated base) (map fst files)"

text \<open>
  \<^verbatim>\<open>
  if len(result) < self.backupCount:
      result = []
  else:
      result.sort()
      result = result[:len(result) - self.backupCount]
  \<close>
\<close>

definition getFilesToDelete :: "handler \<Rightarrow> (string \<times> logfile) list \<Rightarrow> string list" where
  "getFilesToDelete h files =
     (let result = rotated_files (baseFilename h) files
      in if length result < backupCount h then []
         else take (length result - backupCount h) (sort result))"

text \<open>
  \<open>doRollover\<close>: the file is renamed to carry the date of the interval that ends; when
  a file of that name is there already, nothing is done. Then the oldest rotated files
  beyond \<open>backupCount\<close> are removed, the stream is opened again and the next rollover
  time is set.
\<close>

definition doRollover :: "handler \<Rightarrow> env \<Rightarrow> (string \<times> logfile) list \<Rightarrow> handler \<times> (string \<times> logfile) list" where
  "doRollover h ev files =
     (let currentTime = time_now ev;
          t = rolloverAt h - interval h;
          dfn = baseFilename h @ ''.'' @ rollover_date ev t currentTime
      in if fs_exists files dfn then (h, files)
         else let files1 = fs_rename (baseFilename h) dfn files;
                  files2 = (if 0 < backupCount h
                            then fold fs_remove (getFilesToDelete h files1) files1
                            else files1);
                  files3 = fs_open_append (baseFilename h) currentTime files2
              in (h\<lparr>stream_open := True, rolloverAt := computeRollover h currentTime\<rparr>,
                  files3))"

definition shouldRollover :: "handler \<Rightarrow> env \<Rightarrow> bool" where
  "shouldRollover h ev = (rolloverAt h \<le> time_now ev)"

text \<open>
  \<^verbatim>\<open>
  def emit(self, record):
      try:
          if self.shouldRollover(record):
              self.doRollover()
          logging.FileHandler.emit(self, record)
      except Exception:
          self.handleError(record)
  \<close>
  \<open>FileHandler.emit\<close> formats the record with the handler's formatter (the
  \<open>JsonFormatter\<close> above) and writes the text and a newline to the stream.
  \<open>handleError\<close> reports on \<open>stderr\<close> and returns: an exception of the formatter
  does not leave \<open>emit\<close>, and nothing is written for the record.
\<close>

definition emit :: "nat \<Rightarrow> log_record \<Rightarrow> env \<Rightarrow> world \<Rightarrow> world" where
  "emit hid r ev w =
     (if length (handler_store w) \<le> hid then w
      else let h = handler_store w ! hid;
               rolled = (if shouldRollover h ev then doRollover h ev (fs w) else (h, fs w));
               h1 = fst rolled;
               files1 = snd rolled;
               w1 = w\<lparr>handler_store := (handler_store w)[hid := h1], fs := files1\<rparr>
           in case format (utcnow ev) r of
                Inl e \<Rightarrow> w1
              | Inr msg \<Rightarrow>
                  w1\<lparr>fs := fs_write (baseFilename h1) msg (time_now ev) files1,
                     written := written w1 @ [(baseFilename h1, msg)]\<rparr>)"

text \<open>
  \<open>Logger.handle\<close> passes the record to every handler of the logger (a handler's own
  level is \<open>NOTSET\<close>, so none filters; \<open>handle\<close>, unlike \<open>Logger.info\<close>, does not
  compare the record's level with the logger's).
\<close>

definition handle :: "string \<Rightarrow> log_record \<Rightarrow> env \<Rightarrow> world \<Rightarrow> world" where
  "handle key r ev w =
     (case map_of (loggers w) key of
        None \<Rightarrow> w
      | Some lg \<Rightarrow> fold (\<lambda>hid. emit hid r ev) (handlers lg) w)"

subsection \<open>\<open>create_logger\<close>\<close>

definition upper_char :: "char \<Rightarrow> char" where
  "upper_char c =
     (if CHR ''a'' \<le> c \<and> c \<le> CHR ''z'' then char_of ((of_char c :: nat) - 32) else c)"

text \<open>
  \<open>getattr(logging, level.upper())\<close> followed by \<open>setLevel\<close>: the level names of the
  module give their numbers; any other attribute name raises.
\<close>

definition level_value :: "string \<Rightarrow> error + int" where
  "level_value lv =
     (let u = map upper_char lv
      in if u = ''CRITICAL'' \<or> u = ''FATAL'' then Inr 50
         else if u = ''ERROR'' then Inr 40
         else if u = ''WARNING'' \<or> u = ''WARN'' then Inr 30
         else if u = ''INFO'' then Inr 20
         else if u = ''DEBUG'' then Inr 10
         else if u = ''NOTSET'' then Inr 0
         else if u = ''BASIC_FORMAT'' then Inl ValueError
         else if u = ''_STYLES'' then Inl TypeError
         else Inl AttributeError)"

text \<open>
  \<open>logging.getLogger(name)\<close> returns the logger registered under the name, and
  registers a new one (level \<open>NOTSET\<close>, no handler) when there is none; the empty name
  and \<open>root\<close> both name the root logger, whose level starts as \<open>WARNING\<close>.
\<close>

definition logger_key :: "string \<Rightarrow> string" where
  "logger_key name = (if name = [] then ''root'' else name)"

definition getLogger :: "string \<Rightarrow> world \<Rightarrow> world" where
  "getLogger key w =
     (case map_of (loggers w) key of
        Some lg \<Rightarrow> w
      | None \<Rightarrow>
          w\<lparr>loggers := AList.update key
                \<lparr>level = (if key = ''root'' then 30 else 0), handlers = []\<rparr> (loggers w)\<rparr>)"

text \<open>
  \<^verbatim>\<open>
  def create_logger(name: str, log_dir: str = "./data/logs", level: str = "INFO"):
      os.makedirs(log_dir, exist_ok=True)
      logger = logging.getLogger(name)
      logger.setLevel(getattr(logging, level.upper()))
      logger.handlers.clear()
      handler = TimedRotatingFileHandler(
          filename=os.path.join(log_dir, f"{name}.jsonl"),
          when="D", interval=1, backupCount=14, encoding="utf-8")
      handler.setFormatter(JsonFormatter())
      logger.addHandler(handler)
      return logger
  \<close>
  The result is the logger, named by its registry key.
\<close>

definition create_logger :: "string \<Rightarrow> string \<Rightarrow> string \<Rightarrow> env \<Rightarrow> world \<Rightarrow> (error + string) \<times> world" where
  "create_logger name dir lv ev w =
     (let key = logger_key name;
          w1 = getLogger key w
      in case level_value lv of
           Inl e \<Rightarrow> (Inl e, w1)
         | Inr n \<Rightarrow>
             let w2 = w1\<lparr>loggers := AList.update key \<lparr>level = n, handlers = []\<rparr> (loggers w1)\<rparr>;
                 made = TimedRotatingFileHandler (path_join dir (name @ ''.jsonl'')) 1 14 ev w2;
                 w3 = snd made
             in (Inr key,
                 w3\<lparr>loggers := AList.update key \<lparr>level = n, handlers = [fst made]\<rparr>
                                  (loggers w3)\<rparr>))"

section \<open>The facade (\<open>CCTVLogger\<close>)\<close>

text \<open>
  \<^verbatim>\<open>
  def __init__(self, log_dir: str = "./data/logs", level: str = "INFO"):
      self.log_dir = log_dir
      self.event_logger = create_logger("events", log_dir, level)
      self.threat_logger = create_logger("threats", log_dir, level)
  \<close>
\<close>

record cctv =
  log_dir :: string
  event_logger :: string
  threat_logger :: string

definition cctv_init :: "string \<Rightarrow> string \<Rightarrow> env \<Rightarrow> world \<Rightarrow> (error + cctv) \<times> world" where
  "cctv_init dir lv ev w =
     (case create_logger ''events'' dir lv ev w of
        (Inl e, w1) \<Rightarrow> (Inl e, w1)
      | (Inr evl, w1) \<Rightarrow>
          (case create_logger ''threats'' dir lv ev w1 of
             (Inl e, w2) \<Rightarrow> (Inl e, w2)
           | (Inr thl, w2) \<Rightarrow>
               (Inr \<lparr>log_dir = dir, event_logger = evl, threat_logger = thl\<rparr>, w2)))"

text \<open>
  \<open>makeRecord(name, level, "", 0, msg, (), None)\<close> gives a record with the level's name
  and, the arguments being empty, the message \<open>msg\<close>; the source then sets
  \<open>record.extra_data\<close>.
\<close>

definition makeRecord :: "string \<Rightarrow> string \<Rightarrow> pydict \<Rightarrow> log_record" where
  "makeRecord lvname msg extra = \<lparr>levelname = lvname, message = msg, extra_data = Some extra\<rparr>"

text \<open>
  A call that passes a keyword argument under the name of a parameter of the method is
  refused with \<open>TypeError\<close> before the body runs.
\<close>

definition bind_kwargs :: "string list \<Rightarrow> pydict \<Rightarrow> bool" where
  "bind_kwargs params kwargs = list_all (\<lambda>k. k \<notin> set params) (map fst kwargs)"

text \<open>
  \<^verbatim>\<open>
  def log_network_event(self, event_type: str, src_ip: str, dst_ip: str,
                       port: int, protocol: str, **kwargs):
      extra_data = {
          "category": "network",
          "event_type": event_type,
          "src_ip": self._mask_ip(src_ip),
          "dst_ip": self._mask_ip(dst_ip),
          "port": port,
          "protocol": protocol,
          **kwargs
      }
      record = self.event_logger.makeRecord(
          self.event_logger.name, logging.INFO, "", 0,
          f"NETWORK: {event_type}", (), None)
      record.extra_data = extra_data
      self.event_logger.handle(record)
  \<close>
\<close>

definition network_extra :: "string \<Rightarrow> string \<Rightarrow> string \<Rightarrow> int \<Rightarrow> string \<Rightarrow> pydict \<Rightarrow> pydict" where
  "network_extra event_type src_ip dst_ip port protocol kwargs =
     dict_display
       ([(''category'', PStr ''network''),
         (''event_type'', PStr event_type),
         (''src_ip'', PStr (mask_ip src_ip)),
         (''dst_ip'', PStr (mask_ip dst_ip)),
         (''port'', PInt port),
         (''protocol'', PStr protocol)] @ kwargs)"

definition log_network_event ::
  "cctv \<Rightarrow> string \<Rightarrow> string \<Rightarrow> string \<Rightarrow> int \<Rightarrow> string \<Rightarrow> pydict \<Rightarrow> env \<Rightarrow> world
     \<Rightarrow> (error + unit) \<times> world" where
  "log_network_event c event_type src_ip dst_ip port protocol kwargs ev w =
     (if \<not> bind_kwargs [''self'', ''event_type'', ''src_ip'', ''dst_ip'', ''port'', ''protocol''] kwargs
      then (Inl TypeError, w)
      else let extra = network_extra event_type src_ip dst_ip port protocol kwargs;
               r = makeRecord ''INFO'' (''NETWORK: '' @ event_type) extra
           in (Inr (), handle (event_logger c) r ev w))"

text \<open>
  \<open>round(x, 2)\<close>: a float is rounded to two decimal places (a NaN or an infinity is
  returned as it is, a result too large raises \<open>OverflowError\<close>); an \<open>int\<close> is returned
  as it is, a \<open>bool\<close> as the \<open>int\<close> it is; any other value raises \<open>TypeError\<close>.
\<close>

definition py_round2 :: "pyval \<Rightarrow> error + pyval" where
  "py_round2 v =
     (case v of
        PFloat (Fin neg m e) \<Rightarrow>
          (case round_ndigits2 m e of
             None \<Rightarrow> Inl OverflowError
           | Some me \<Rightarrow> Inr (PFloat (Fin neg (fst me) (snd me))))
      | PFloat x \<Rightarrow> Inr (PFloat x)
      | PInt i \<Rightarrow> Inr (PInt i)
      | PBool b \<Rightarrow> Inr (PInt (if b then 1 else 0))
      | _ \<Rightarrow> Inl TypeError)"

text \<open>
  \<^verbatim>\<open>
  def log_api_request(self, method: str, endpoint: str, src_ip: str,
                     status_code: int, response_time_ms: float, **kwargs):
      extra_data = {
          "category": "api",
          "method": method,
          "endpoint": endpoint,
          "src_ip": self._mask_ip(src_ip),
          "status_code": status_code,
          "response_time_ms": round(response_time_ms, 2),
          **kwargs
      }
      record = self.event_logger.makeRecord(
          self.event_logger.name, logging.INFO, "", 0,
          f"API: {method} {endpoint}", (), None)
      record.extra_data = extra_data
      self.event_logger.handle(record)
  \<close>
\<close>

definition api_extra :: "string \<Rightarrow> string \<Rightarrow> string \<Rightarrow> int \<Rightarrow> pyval \<Rightarrow> pydict \<Rightarrow> pydict" where
  "api_extra method endpoint src_ip status_code rounded kwargs =
     dict_display
       ([(''category'', PStr ''api''),
         (''method'', PStr method),
         (''endpoint'', PStr endpoint),
         (''src_ip'', PStr (mask_ip src_ip)),
         (''status_code'', PInt status_code),
         (''response_time_ms'', rounded)] @ kwargs)"

definition log_api_request ::
  "cctv \<Rightarrow> string \<Rightarrow> string \<Rightarrow> string \<Rightarrow> int \<Rightarrow> pyval \<Rightarrow> pydict \<Rightarrow> env \<Rightarrow> world
     \<Rightarrow> (error + unit) \<times> world" where
  "log_api_request c method endpoint src_ip status_code response_time_ms kwargs ev w =
     (if \<not> bind_kwargs [''self'', ''method'', ''endpoint'', ''src_ip'', ''status_code'',
                         ''response_time_ms''] kwargs
      then (Inl TypeError, w)
      else case py_round2 response_time_ms of
             Inl e \<Rightarrow> (Inl e, w)
           | Inr rounded \<Rightarrow>
               let extra = api_extra method endpoint src_ip status_code rounded kwargs;
                   r = makeRecord ''INFO'' (''API: '' @ method @ '' '' @ endpoint) extra
               in (Inr (), handle (event_logger c) r ev w))"

text \<open>
  \<^verbatim>\<open>
  def log_threat(self, category: str, threat: Dict[str, Any]):
      threat_data = {"category": category, **threat}
      if "src_ip" in threat_data:
          threat_data["src_ip_masked"] = self._mask_ip(threat_data["src_ip"])
          del threat_data["src_ip"]
      record = self.threat_logger.makeRecord(
          self.threat_logger.name, logging.WARNING, "", 0,
          f"THREAT: {threat.get('threat_type', 'UNKNOWN')}", (), None)
      record.extra_data = threat_data
      self.threat_logger.handle(record)
  \<close>
  \<open>threat\<close> is a reference to the caller's dictionary, so it is an address of the heap
  here; the dictionary display allocates \<open>threat_data\<close>, and the two statements under
  the \<open>if\<close> write to that object. \<open>_mask_ip\<close> calls \<open>ip.split\<close>, which only a
  string has: on any other value it raises \<open>AttributeError\<close>.
\<close>

definition mask_ip_val :: "pyval \<Rightarrow> error + string" where
  "mask_ip_val v = (case v of PStr ip \<Rightarrow> Inr (mask_ip ip) | _ \<Rightarrow> Inl AttributeError)"

definition alloc :: "pydict \<Rightarrow> world \<Rightarrow> nat \<times> world" where
  "alloc d w = (next_free w, w\<lparr>heap := (heap w)(next_free w := d), next_free := Suc (next_free w)\<rparr>)"

definition store :: "nat \<Rightarrow> pydict \<Rightarrow> world \<Rightarrow> world" where
  "store a d w = w\<lparr>heap := (heap w)(a := d)\<rparr>"

definition log_threat :: "cctv \<Rightarrow> string \<Rightarrow> nat \<Rightarrow> env \<Rightarrow> world \<Rightarrow> (error + unit) \<times> world" where
  "log_threat c category threat ev w =
     (let made = alloc (dict_display ((''category'', PStr category) # heap w threat)) w;
          threat_data = fst made;
          w1 = snd made;
          masked =
            (case dict_get (heap w1 threat_data) ''src_ip'' of
               None \<Rightarrow> Inr w1
             | Some ip \<Rightarrow>
                 (case mask_ip_val ip of
                    Inl e \<Rightarrow> Inl (e, w1)
                  | Inr m \<Rightarrow>
                      let w2 = store threat_data
                                 (dict_set ''src_ip_masked'' (PStr m) (heap w1 threat_data)) w1
                      in Inr (store threat_data (dict_del ''src_ip'' (heap w2 threat_data)) w2)))
      in case masked of
           Inl (e, w') \<Rightarrow> (Inl e, w')
         | Inr w3 \<Rightarrow>
             let threat_type = (case dict_get (heap w3 threat) ''threat_type'' of
                                  None \<Rightarrow> PStr ''UNKNOWN'' | Some v \<Rightarrow> v);
                 r = makeRecord ''WARNING'' (''THREAT: '' @ py_str threat_type)
                       (heap w3 threat_data)
             in (Inr (), handle (threat_logger c) r ev w3))"

section \<open>Observing a channel\<close>

text \<open>
  The file a logger writes to: the base file of its handler, when it has exactly one
  (which is what \<open>create_logger\<close> leaves it with).
\<close>

definition sink_path :: "world \<Rightarrow> string \<Rightarrow> string option" where
  "sink_path w key =
     (case map_of (loggers w) key of
        None \<Rightarrow> None
      | Some lg \<Rightarrow>
          (case handlers lg of
             [hid] \<Rightarrow> (if hid < length (handler_store w)
                        then Some (baseFilename (handler_store w ! hid)) else None)
           | _ \<Rightarrow> None))"


text \<open>
  The fields \<open>log_threat\<close> hands to the formatter, as a function of its arguments (the
  first five lines of its body), and the record it makes of them.
\<close>

definition threat_data :: "string \<Rightarrow> pydict \<Rightarrow> error + pydict" where
  "threat_data category threat =
     (let d = dict_display ((''category'', PStr category) # threat)
      in case dict_get d ''src_ip'' of
           None \<Rightarrow> Inr d
         | Some ip \<Rightarrow>
             (case mask_ip_val ip of
                Inl e \<Rightarrow> Inl e
              | Inr m \<Rightarrow> Inr (dict_del ''src_ip'' (dict_set ''src_ip_masked'' (PStr m) d))))"


text \<open>The state of a process that has not touched the logging package yet.\<close>

definition fresh_world :: world where
  "fresh_world =
     \<lparr>heap = (\<lambda>a. []), next_free = 0, loggers = [], handler_store = [], fs = [],
      written = []\<rparr>"

text \<open>
  The run of the source's \<open>__main__\<close> block, used for the concrete checks below: a
  reading of the environment, the facade constructed with its defaults in a fresh process,
  and the threat mapping of the block, placed on the heap.
\<close>

definition main_env :: env where
  "main_env =
     \<lparr>time_now = 1793707200,
      utcnow = \<lparr>year = 2026, month = 11, day = 3, hour = 12, minute = 0, second = 0,
                microsecond = 250000\<rparr>,
      rollover_date = (\<lambda>t now. ''2026-11-02'')\<rparr>"

definition main_threat :: pydict where
  "main_threat =
     [(''threat_type'', PStr ''PORT_SCAN''), (''severity'', PStr ''HIGH''),
      (''src_ip'', PStr ''10.0.0.5''), (''ports_scanned'', PInt 15)]"

definition main_facade :: cctv where
  "main_facade = \<lparr>log_dir = ''./data/logs'', event_logger = ''events'',
                   threat_logger = ''threats''\<rparr>"

definition main_world :: world where
  "main_world = snd (cctv_init ''./data/logs'' ''INFO'' main_env fresh_world)"

definition with_dict :: "pydict \<Rightarrow> world \<Rightarrow> world" where
  "with_dict d w = snd (alloc d w)"

section \<open>Sequences of calls\<close>

text \<open>
  A caller's use of the facade over time: a list of calls, each with the reading of the
  environment at the time it is made. A call that raises leaves the state it had reached;
  the caller goes on with the next call.
\<close>

datatype call =
    NetworkEvent string string string int string pydict
  | ApiRequest string string string int pyval pydict
  | Threat string nat

fun do_call :: "cctv \<Rightarrow> call \<Rightarrow> env \<Rightarrow> world \<Rightarrow> world" where
  "do_call c (NetworkEvent event_type src dst port protocol kwargs) ev w =
     snd (log_network_event c event_type src dst port protocol kwargs ev w)"
| "do_call c (ApiRequest method endpoint src status rt kwargs) ev w =
     snd (log_api_request c method endpoint src status rt kwargs ev w)"
| "do_call c (Threat category threat) ev w = snd (log_threat c category threat ev w)"

definition run :: "cctv \<Rightarrow> (call \<times> env) list \<Rightarrow> world \<Rightarrow> world" where
  "run c steps w = fold (\<lambda>step. do_call c (fst step) (snd step)) steps w"





subsection \<open>Timestamps of a sequence of calls\<close>





section \<open>Properties of the splitting function\<close>

lemma split_on_nonempty: "split_on c s \<noteq> []"
  by (induction s) (auto simp: Let_def)

lemma split_on_no_sep: "c \<notin> set a \<Longrightarrow> split_on c a = [a]"
  by (induction a) (auto simp: Let_def)

lemma split_on_append:
  "c \<notin> set a \<Longrightarrow> split_on c (a @ c # rest) = a # split_on c rest"
  by (induction a) (auto simp: Let_def)

lemma split_on_segments: "p \<in> set (split_on c s) \<Longrightarrow> c \<notin> set p"
proof (induction s arbitrary: p)
  case Nil
  then show ?case by simp
next
  case (Cons x xs)
  show ?case
  proof (cases "x = c")
    case True
    with Cons show ?thesis by auto
  next
    case False
    obtain q qs where ps: "split_on c xs = q # qs"
      using split_on_nonempty [of c xs] by (cases "split_on c xs") auto
    from Cons.prems False ps have "p = x # q \<or> p \<in> set qs"
      by (simp add: Let_def)
    then show ?thesis
    proof
      assume "p = x # q"
      moreover have "c \<notin> set q" using Cons.IH [of q] ps by simp
      ultimately show ?thesis using False by auto
    next
      assume "p \<in> set qs"
      then show ?thesis using Cons.IH [of p] ps by simp
    qed
  qed
qed

lemma join_split_on: "join_with c (split_on c s) = s"
proof (induction s)
  case Nil
  then show ?case by simp
next
  case (Cons x xs)
  obtain q qs where ps: "split_on c xs = q # qs"
    using split_on_nonempty [of c xs] by (cases "split_on c xs") auto
  show ?case
  proof (cases "x = c")
    case True
    with Cons ps show ?thesis by simp
  next
    case False
    with Cons ps show ?thesis by (cases qs) (auto simp: Let_def)
  qed
qed

lemma four_segments_shape:
  assumes "length (split_on c s) = 4"
  shows "\<exists>a b d e. c \<notin> set a \<and> c \<notin> set b \<and> c \<notin> set d \<and> c \<notin> set e
           \<and> s = a @ c # b @ c # d @ c # e"
proof -
  from assms obtain a b d e where ps: "split_on c s = [a, b, d, e]"
    by (auto simp: length_Suc_conv eval_nat_numeral)
  have "c \<notin> set a" "c \<notin> set b" "c \<notin> set d" "c \<notin> set e"
    using split_on_segments [of _ c s] ps by auto
  moreover have "s = a @ c # b @ c # d @ c # e"
    using join_split_on [of c s] ps by simp
  ultimately show ?thesis by blast
qed


section \<open>Properties of dictionaries\<close>

lemma dict_keys_set [simp]: "dict_keys (dict_set k v d) = insert k (dict_keys d)"
  by (simp add: dict_keys_def dict_set_def dom_update)

lemma dict_get_set [simp]:
  "dict_get (dict_set k v d) k' = (if k' = k then Some v else dict_get d k')"
  by (simp add: dict_get_def dict_set_def update_conv')

lemma dict_keys_del [simp]: "dict_keys (dict_del k d) = dict_keys d - {k}"
proof -
  have "fst ` set (AList.delete k d) = set (map fst (AList.delete k d))"
    by simp
  also have "\<dots> = set (map fst d) - {k}"
    by (simp only: delete_keys set_removeAll)
  finally show ?thesis
    by (simp add: dict_keys_def dict_del_def)
qed

lemma dict_get_del [simp]:
  "dict_get (dict_del k d) k' = (if k' = k then None else dict_get d k')"
  by (simp add: dict_get_def dict_del_def delete_conv')

lemma dict_get_None_iff: "dict_get d k = None \<longleftrightarrow> k \<notin> dict_keys d"
  by (simp add: dict_get_def dict_keys_def map_of_eq_None_iff)

lemma dict_get_Some_key: "dict_get d k = Some v \<Longrightarrow> k \<in> dict_keys d"
  using dict_get_None_iff [of d k] by auto

lemma dict_keys_update [simp]: "dict_keys (dict_update d e) = dict_keys d \<union> dict_keys e"
proof (induction e arbitrary: d)
  case Nil
  then show ?case by (simp add: dict_update_def dict_keys_def)
next
  case (Cons kv e)
  have "dict_update d (kv # e) = dict_update (dict_set (fst kv) (snd kv) d) e"
    by (simp add: dict_update_def)
  moreover have "dict_keys (kv # e) = insert (fst kv) (dict_keys e)"
    by (simp add: dict_keys_def)
  ultimately show ?case
    using Cons [of "dict_set (fst kv) (snd kv) d"] by auto
qed


lemma dict_update_Nil [simp]: "dict_update d [] = d"
  by (simp add: dict_update_def)













section \<open>Properties of the runtime\<close>

lemma doRollover_baseFilename [simp]:
  "baseFilename (fst (doRollover h ev files)) = baseFilename h"
  by (simp add: doRollover_def Let_def)

lemma emit_heap [simp]: "heap (emit hid r ev w) = heap w"
  by (simp add: emit_def Let_def split: sum.splits)

lemma emit_next_free [simp]: "next_free (emit hid r ev w) = next_free w"
  by (simp add: emit_def Let_def split: sum.splits)

lemma emit_loggers [simp]: "loggers (emit hid r ev w) = loggers w"
  by (simp add: emit_def Let_def split: sum.splits)

lemma emit_store_length [simp]:
  "length (handler_store (emit hid r ev w)) = length (handler_store w)"
  by (simp add: emit_def Let_def split: sum.splits)

lemma emit_baseFilename [simp]:
  "baseFilename (handler_store (emit hid r ev w) ! i) = baseFilename (handler_store w ! i)"
  by (cases "i = hid") (simp_all add: emit_def Let_def split: sum.splits)





lemma handle_heap [simp]: "heap (handle key r ev w) = heap w"
proof -
  have "heap (fold (\<lambda>hid. emit hid r ev) hs w) = heap w" for hs
    by (induction hs arbitrary: w) simp_all
  then show ?thesis
    by (simp add: handle_def split: option.splits)
qed

lemma handle_next_free [simp]: "next_free (handle key r ev w) = next_free w"
proof -
  have "next_free (fold (\<lambda>hid. emit hid r ev) hs w) = next_free w" for hs
    by (induction hs arbitrary: w) simp_all
  then show ?thesis
    by (simp add: handle_def split: option.splits)
qed



lemma handle_sink_path [simp]: "sink_path (handle key r ev w) k = sink_path w k"
proof -
  have "loggers (fold (\<lambda>hid. emit hid r ev) hs w) = loggers w
      \<and> length (handler_store (fold (\<lambda>hid. emit hid r ev) hs w)) = length (handler_store w)
      \<and> (\<forall>i. baseFilename (handler_store (fold (\<lambda>hid. emit hid r ev) hs w) ! i)
              = baseFilename (handler_store w ! i))" for hs
    by (induction hs arbitrary: w) simp_all
  then show ?thesis
    by (simp add: handle_def sink_path_def split: option.splits list.splits)
qed

lemma sink_path_heap [simp]: "sink_path (w\<lparr>heap := H\<rparr>) k = sink_path w k"
  by (simp add: sink_path_def split: option.splits list.splits)

lemma sink_path_next_free [simp]: "sink_path (w\<lparr>next_free := n\<rparr>) k = sink_path w k"
  by (simp add: sink_path_def split: option.splits list.splits)

section \<open>Properties of \<open>log_threat\<close>\<close>



lemma log_threat_heap:
  assumes "a < next_free w"
  shows "heap (snd (log_threat c category threat ev w)) a = heap w a"
  using assms
  by (simp add: log_threat_def alloc_def store_def Let_def split: option.splits sum.splits)













section \<open>The concrete run\<close>


lemma main_sink_events:
  "sink_path (with_dict d main_world) (event_logger main_facade)
     = Some ''./data/logs/events.jsonl''"
proof -
  have "sink_path main_world ''events'' = Some ''./data/logs/events.jsonl''"
    by code_simp
  then show ?thesis
    by (simp add: with_dict_def alloc_def main_facade_def)
qed


lemma main_heap: "heap (with_dict d main_world) 0 = d"
proof -
  have "next_free main_world = 0"
    by code_simp
  then show ?thesis
    by (simp add: with_dict_def alloc_def)
qed

lemma main_next_free: "0 < next_free (with_dict d main_world)"
  by (simp add: with_dict_def alloc_def)

lemma main_written: "written (with_dict d main_world) = []"
proof -
  have "written main_world = []"
    by code_simp
  then show ?thesis
    by (simp add: with_dict_def alloc_def)
qed

section \<open>Properties of the JSON text\<close>

text \<open>The text of a value holds no line feed.\<close>

lemma digit_char_not_nl [simp]: "digit_char d \<noteq> CHR 0x0A" "CHR 0x0A \<noteq> digit_char d"
  by (simp_all add: digit_char_def)

lemma show_nat_no_nl [simp]: "CHR 0x0A \<notin> set (show_nat n)"
proof (induction n rule: show_nat.induct)
  case (1 n)
  then show ?case
    by (subst show_nat.simps) auto
qed

lemma show_int_no_nl [simp]: "CHR 0x0A \<notin> set (show_int i)"
  by (simp add: show_int_def)

lemma exp_text_no_nl [simp]: "CHR 0x0A \<notin> set (exp_text x)"
  by (simp add: exp_text_def Let_def)

lemma strip_zeros_subset: "set (strip_zeros s) \<subseteq> set s"
proof -
  have "set (dropWhile (\<lambda>c. c = CHR ''0'') (rev s)) \<subseteq> set (rev s)"
    by (rule set_dropWhileD [THEN subsetI])
  then show ?thesis
    by (simp add: strip_zeros_def)
qed

lemma format_repr_no_nl:
  assumes "CHR 0x0A \<notin> set ds"
  shows "CHR 0x0A \<notin> set (format_repr ds decpt)"
proof -
  have "CHR 0x0A \<notin> set (take n ds)" and "CHR 0x0A \<notin> set (drop n ds)" for n
    using assms by (auto dest: in_set_takeD in_set_dropD)
  then show ?thesis
    using assms by (simp add: format_repr_def)
qed

lemma finite_repr_no_nl [simp]: "CHR 0x0A \<notin> set (finite_repr m e)"
proof -
  have "CHR 0x0A \<notin> set (strip_zeros (show_nat D))" for D
    using strip_zeros_subset [of "show_nat D"] show_nat_no_nl [of D] by blast
  then show ?thesis
    by (simp add: finite_repr_def digits_repr_def format_repr_no_nl)
qed

lemma float_repr_no_nl [simp]: "CHR 0x0A \<notin> set (float_repr x)"
  by (cases x) (simp_all add: float_repr_def)

lemma json_float_no_nl [simp]: "CHR 0x0A \<notin> set (json_float x)"
  by (cases x) (simp_all add: json_float_def)

lemma hex_char_in: "hex_char d \<in> set ''0123456789abcdef''"
  unfolding hex_char_def by (rule nth_mem) simp

lemma hex_char_not_nl [simp]: "hex_char d \<noteq> CHR 0x0A" "CHR 0x0A \<noteq> hex_char d"
  using hex_char_in [of d] by auto

lemma esc_char_no_nl [simp]: "CHR 0x0A \<notin> set (esc_char c)"
  by (simp add: esc_char_def hex2_def Let_def)

lemma encode_basestring_no_nl [simp]: "CHR 0x0A \<notin> set (encode_basestring s)"
  by (simp add: encode_basestring_def)




section \<open>Properties of the formatter\<close>







section \<open>Properties of \<open>create_logger\<close>\<close>



section \<open>Properties of the rotation\<close>

lemma fs_remove_keys: "map fst (fs_remove p files) = removeAll p (map fst files)"
  by (simp add: fs_remove_def delete_keys)


lemma fs_open_append_keys:
  "map fst (fs_open_append p t files)
     = (if p \<in> set (map fst files) then map fst files else map fst files @ [p])"
  by (auto simp: fs_open_append_def fs_exists_def update_keys map_of_eq_None_iff)

lemma fs_write_keys:
  "map fst (fs_write p line t files)
     = (if p \<in> set (map fst files) then map fst files else map fst files @ [p])"
  by (auto simp: fs_write_def update_keys map_of_eq_None_iff split: option.splits
        dest: map_of_SomeD)


lemma not_rotated_base [simp]: "\<not> is_rotated base base"
  by (simp add: is_rotated_def)


lemma distinct_fs_remove: "distinct (map fst files) \<Longrightarrow> distinct (map fst (fs_remove p files))"
  by (simp add: fs_remove_keys distinct_removeAll)





lemma rotated_fs_open_append [simp]:
  "rotated_files base (fs_open_append base t files) = rotated_files base files"
  by (simp add: rotated_files_def fs_open_append_keys)

lemma rotated_fs_write [simp]:
  "rotated_files base (fs_write base line t files) = rotated_files base files"
  by (simp add: rotated_files_def fs_write_keys)



lemma doRollover_fields [simp]:
  "interval (fst (doRollover h ev files)) = interval h"
  "backupCount (fst (doRollover h ev files)) = backupCount h"
  by (simp_all add: doRollover_def Let_def)

section \<open>The channels under a sequence of calls\<close>

lemma path_join_relative:
  "n \<noteq> [] \<Longrightarrow> hd n \<noteq> CHR ''/'' \<Longrightarrow> \<exists>P. \<forall>m. m \<noteq> [] \<and> hd m \<noteq> CHR ''/'' \<longrightarrow> path_join dir m = P @ m"
  by (cases "dir = [] \<or> last dir = CHR ''/''") (auto simp: path_join_def)



lemma channel_paths_differ: "path_join dir ''events.jsonl'' \<noteq> path_join dir ''threats.jsonl''"
proof -
  obtain P where P: "\<forall>m. m \<noteq> [] \<and> hd m \<noteq> CHR ''/'' \<longrightarrow> path_join dir m = P @ m"
    using path_join_relative [of "''events.jsonl''" dir] by auto
  then have "path_join dir ''events.jsonl'' = P @ ''events.jsonl''"
    and "path_join dir ''threats.jsonl'' = P @ ''threats.jsonl''"
    by simp_all
  then show ?thesis
    by simp
qed










lemma emit_interval [simp]:
  "interval (handler_store (emit hid r ev w) ! i) = interval (handler_store w ! i)"
  by (cases "i = hid") (simp_all add: emit_def Let_def split: sum.splits)

lemma emit_backupCount [simp]:
  "backupCount (handler_store (emit hid r ev w) ! i) = backupCount (handler_store w ! i)"
  by (cases "i = hid") (simp_all add: emit_def Let_def split: sum.splits)








lemma log_threat_frame:
  "\<exists>W. (snd (log_threat c category threat ev w) = W
          \<or> (\<exists>r. snd (log_threat c category threat ev w) = handle (threat_logger c) r ev W))
       \<and> loggers W = loggers w \<and> handler_store W = handler_store w \<and> fs W = fs w"
proof -
  let ?D = "dict_display ((''category'', PStr category) # heap w threat)"
  let ?w1 = "snd (alloc ?D w)"
  have frame: "loggers (store a d W) = loggers W" "handler_store (store a d W) = handler_store W"
    "fs (store a d W) = fs W" for a d W
    by (simp_all add: store_def)
  have w1: "loggers ?w1 = loggers w" "handler_store ?w1 = handler_store w" "fs ?w1 = fs w"
    by (simp_all add: alloc_def)
  show ?thesis
  proof (cases "dict_get (heap ?w1 (fst (alloc ?D w))) ''src_ip''")
    case None
    then have "\<exists>r. snd (log_threat c category threat ev w) = handle (threat_logger c) r ev ?w1"
      by (auto simp: log_threat_def Let_def)
    with w1 show ?thesis
      by blast
  next
    case (Some ip)
    show ?thesis
    proof (cases "mask_ip_val ip")
      case (Inl e)
      with Some have "snd (log_threat c category threat ev w) = ?w1"
        by (simp add: log_threat_def Let_def)
      with w1 show ?thesis
        by blast
    next
      case (Inr m)
      let ?a = "fst (alloc ?D w)"
      let ?w2 = "store ?a (dict_set ''src_ip_masked'' (PStr m) (heap ?w1 ?a)) ?w1"
      let ?w3 = "store ?a (dict_del ''src_ip'' (heap ?w2 ?a)) ?w2"
      from Some Inr
      have "\<exists>r. snd (log_threat c category threat ev w) = handle (threat_logger c) r ev ?w3"
        by (auto simp: log_threat_def Let_def)
      moreover have "loggers ?w3 = loggers w" "handler_store ?w3 = handler_store w"
        "fs ?w3 = fs w"
        by (simp_all only: frame w1)
      ultimately show ?thesis
        by blast
    qed
  qed
qed








section \<open>Properties of the timestamp\<close>















lemma sink_path_frame:
  "loggers W = loggers w \<Longrightarrow> handler_store W = handler_store w \<Longrightarrow>
   sink_path W key = sink_path w key"
  by (simp add: sink_path_def split: option.splits list.splits)

lemma do_call_sink_path [simp]: "sink_path (do_call c k ev w) key = sink_path w key"
proof (cases k)
  case (NetworkEvent event_type src dst port protocol kwargs)
  then show ?thesis
    by (simp add: log_network_event_def Let_def)
next
  case (ApiRequest verb endpoint src status rt kwargs)
  then show ?thesis
    by (simp add: log_api_request_def Let_def split: sum.splits)
next
  case (Threat category threat)
  from log_threat_frame [of c category threat ev w] obtain W where
    W: "snd (log_threat c category threat ev w) = W
          \<or> (\<exists>r. snd (log_threat c category threat ev w) = handle (threat_logger c) r ev W)"
    and fr: "loggers W = loggers w" "handler_store W = handler_store w"
    by blast
  have "sink_path W key = sink_path w key"
    using fr by (rule sink_path_frame)
  then show ?thesis
    using W Threat by auto
qed









section \<open>Properties of \<open>log_api_request\<close>\<close>











section \<open>Claims\<close>

text \<open>
  C2. For every input string the masking function returns a value (the model has no
  error branch: no operation of the source can raise on a string). If the string is four
  dot-free segments \<open>a.b.c.d\<close>, the result is \<open>a.b.c.xxx\<close>; if the string is not of
  that shape, the result is the literal \<open>unknown\<close>.
\<close>

theorem mask_ip_four_segments_or_unknown:
  "(CHR ''.'' \<notin> set a \<union> set b \<union> set c \<union> set d \<longrightarrow>
      mask_ip (a @ ''.'' @ b @ ''.'' @ c @ ''.'' @ d) = a @ ''.'' @ b @ ''.'' @ c @ ''.xxx'')
   \<and> ((\<nexists>a b c d. CHR ''.'' \<notin> set a \<union> set b \<union> set c \<union> set d
          \<and> ip = a @ ''.'' @ b @ ''.'' @ c @ ''.'' @ d) \<longrightarrow>
      mask_ip ip = ''unknown'')"
proof (intro conjI impI)
  assume nd: "CHR ''.'' \<notin> set a \<union> set b \<union> set c \<union> set d"
  then have "split_on CHR ''.'' (a @ ''.'' @ b @ ''.'' @ c @ ''.'' @ d) = [a, b, c, d]"
    by (simp add: split_on_append split_on_no_sep)
  then show "mask_ip (a @ ''.'' @ b @ ''.'' @ c @ ''.'' @ d)
      = a @ ''.'' @ b @ ''.'' @ c @ ''.xxx''"
    by (simp add: mask_ip_def)
next
  assume no: "\<nexists>a b c d. CHR ''.'' \<notin> set a \<union> set b \<union> set c \<union> set d
          \<and> ip = a @ ''.'' @ b @ ''.'' @ c @ ''.'' @ d"
  have "length (split_on CHR ''.'' ip) \<noteq> 4"
  proof
    assume "length (split_on CHR ''.'' ip) = 4"
    from four_segments_shape [OF this] no show False by auto
  qed
  then show "mask_ip ip = ''unknown''"
    by (simp add: mask_ip_def)
qed

theorem mask_ip_four_segments_or_unknown_witness:
  "mask_ip ''192.168.1.100'' = ''192.168.1.xxx'' \<and> mask_ip ''fe80::1'' = ''unknown''"
proof -
  have nd: "CHR ''.'' \<notin> set ''192'' \<union> set ''168'' \<union> set ''1'' \<union> set ''100''"
    by simp
  have no: "\<nexists>a b c d. CHR ''.'' \<notin> set a \<union> set b \<union> set c \<union> set d
          \<and> ''fe80::1'' = a @ ''.'' @ b @ ''.'' @ c @ ''.'' @ d"
  proof
    assume "\<exists>a b c d. CHR ''.'' \<notin> set a \<union> set b \<union> set c \<union> set d
          \<and> ''fe80::1'' = a @ ''.'' @ b @ ''.'' @ c @ ''.'' @ d"
    then obtain a b c d where "''fe80::1'' = a @ ''.'' @ b @ ''.'' @ c @ ''.'' @ d"
      by blast
    then have "CHR ''.'' \<in> set ''fe80::1''"
      by (metis append_Cons in_set_conv_decomp)
    then show False by simp
  qed
  from mask_ip_four_segments_or_unknown [of "''192''" "''168''" "''1''" "''100''" "''fe80::1''"]
    nd no
  show ?thesis by simp
qed






text \<open>The text of that record.\<close>

lemma format_collision_text:
  \<open>format (utcnow main_env)
        \<lparr>levelname = ''INFO'', message = ''NETWORK: connection'',
         extra_data = Some [(''level'', PStr ''overridden''), (''port'', PInt 554)]\<rparr>
       = Inr ''{"timestamp": "2026-11-03T12:00:00.250000Z", "level": "overridden", "message": "NETWORK: connection", "port": 554}''\<close>
  by code_simp









text \<open>The files after that call: the channel's file has been rotated under its date.\<close>

lemma rotation_example:
  "map (\<lambda>pf. (fst pf, length (f_lines (snd pf))))
     (fs (run main_facade
            [(NetworkEvent ''connection'' ''192.168.1.100'' ''192.168.1.10'' 554 ''TCP'' [],
              main_env\<lparr>time_now := 1793880000\<rparr>)]
            main_world))
   = [(''./data/logs/threats.jsonl'', 0), (''./data/logs/events.jsonl.2026-11-02'', 0),
      (''./data/logs/events.jsonl'', 1)]"
  by code_simp









text \<open>
  C10. \<open>log_threat\<close> does not change the caller's threat mapping: the dictionary at the
  address passed as \<open>threat\<close> is the same after the call as before it, whether the call
  returns or raises, and so is every other dictionary that was allocated before the call.
  The removal of \<open>src_ip\<close> and the insertion of \<open>src_ip_masked\<close> go to the dictionary
  the call allocates.
\<close>

theorem log_threat_keeps_threat:
  assumes "threat < next_free w"
  shows "heap (snd (log_threat c category threat ev w)) threat = heap w threat
         \<and> (\<forall>a. a < next_free w \<longrightarrow> heap (snd (log_threat c category threat ev w)) a = heap w a)"
  using assms by (simp add: log_threat_heap)

theorem log_threat_keeps_threat_witness:
  "0 < next_free (with_dict main_threat main_world)
   \<and> heap (snd (log_threat main_facade ''network'' 0 main_env
                  (with_dict main_threat main_world))) 0 = main_threat"
  using log_threat_keeps_threat [of 0 "with_dict main_threat main_world" main_facade
          "''network''" main_env]
  by (simp add: main_next_free main_heap)
end
